theory Spec2Isabelle
  imports Main "HOL-Library.Product_Lexorder" "HOL-Library.Multiset"
begin

section \<open>Data model\<close>

text \<open>
  The routes of \<^verbatim>\<open>src/routes/doctors.js\<close> talk to four collaborators: a PostgreSQL
  database (\<^verbatim>\<open>db.query\<close>), a Redis client used as cache and presence store, a Redis
  publisher used as broadcast channel, and a Socket.IO server (\<^verbatim>\<open>io.emit\<close>). Each
  handler is modelled as a function from the request's parameters and the state of these
  collaborators to the response sent and the state afterwards.

  Identifiers are integers, dates are day numbers and times of day are seconds, all
  columns are taken to be \<^verbatim>\<open>NOT NULL\<close>; statuses are the strings the code writes.
\<close>

record appointment =
  a_id :: int
  doctor_id :: int
  patient_id :: int
  status :: string
  appointment_date :: int
  start_time :: int
  end_time :: int

record patient =
  p_id :: int
  p_name :: string

record doctor =
  d_id :: int
  d_name :: string
  d_specialization :: string

text \<open>A row of the dashboard query: \<^verbatim>\<open>a.*, p.name as patient_name\<close>.\<close>

record dash_row = appointment +
  patient_name :: string

text \<open>
  A row of the query of the accept and reject handlers:
  \<^verbatim>\<open>a.*, p.id as patient_id, p.name as patient_name, d.name as doctor_name, d.specialization\<close>.
\<close>

record joined_row = dash_row +
  doctor_name :: string
  specialization :: string

text \<open>The statements the handlers send to \<^verbatim>\<open>db.query\<close>, with their parameters.\<close>

datatype sql =
    SelectDashboard int
  | SelectAppointment int
  | UpdateStatus string int
  | SelectDoctorIds

text \<open>
  The two key templates, \<^verbatim>\<open>appointments:${doctor_id}\<close> and
  \<^verbatim>\<open>doctor:status:${doctorId}\<close>.
\<close>

datatype cache_key = AppointmentsKey int | StatusKey int

text \<open>
  What a Redis key holds: \<open>Json rows\<close> is the text \<^verbatim>\<open>JSON.stringify(rows)\<close> of a
  listing, \<open>Str s\<close> any other text (a presence status, or something that
  \<^verbatim>\<open>JSON.parse\<close> rejects). A text that \<^verbatim>\<open>JSON.parse\<close> accepts without its being a
  listing (\<^verbatim>\<open>null\<close>, \<^verbatim>\<open>0\<close>, \<^verbatim>\<open>{}\<close>) has no value here; no handler writes one.
\<close>

datatype redis_value = Str string | Json "dash_row list"

text \<open>The two event payloads: \<^verbatim>\<open>eventData\<close> and \<^verbatim>\<open>statusEvent\<close>.\<close>

record event_data =
  ev_appointmentId :: int
  ev_patientId :: int
  ev_status :: string
  ev_doctorName :: string
  ev_specialization :: string
  ev_appointmentDate :: int
  ev_startTime :: int
  ev_endTime :: int

record status_event =
  se_doctorId :: int
  se_doctorName :: string
  se_status :: string
  se_timestamp :: nat

datatype event = AppointmentEvent event_data | StatusEvent status_event

text \<open>The exceptions a handler can meet.\<close>

datatype exn = DbError | RedisError | TypeError | SyntaxError

text \<open>
  The state of the collaborators. \<open>db_faults\<close>, \<open>redis_faults\<close> and \<open>pub_faults\<close>
  say, call by call, which of the next remote calls reject (\<open>True\<close>); past the end of
  the list every call resolves. \<open>redis_isOpen\<close> stands for
  \<^verbatim>\<open>redisClient && redisClient.isOpen\<close>, \<open>pub_isOpen\<close> for the same test on the
  publisher, and \<open>io_present\<close> for \<^verbatim>\<open>req.app.get('io')\<close> being a Socket.IO server.
  A Redis entry carries the time at which it expires, if it has one. \<open>db_log\<close>,
  \<open>published\<close> and \<open>emitted\<close> record the statements executed, the messages
  published on the broadcast channel and the events emitted directly. While one handler
  runs, the clock stands still and no connection opens or closes.
\<close>

record env =
  clock :: nat
  db_faults :: "bool list"
  db_log :: "sql list"
  appointments :: "appointment list"
  patients :: "patient list"
  doctors :: "doctor list"
  redis_isOpen :: bool
  redis_faults :: "bool list"
  redis_data :: "cache_key \<rightharpoonup> redis_value \<times> nat option"
  pub_isOpen :: bool
  pub_faults :: "bool list"
  published :: "(string \<times> event) list"
  io_present :: bool
  emitted :: "(string \<times> event) list"

text \<open>What a handler sends back.\<close>

datatype response =
    Render "string option" "dash_row list" bool
  | Redirect string
  | Send nat string
  | JsonError nat string
  | JsonSuccess string
  | JsonStatus redis_value
  | JsonStatuses "int \<rightharpoonup> redis_value"

section \<open>The collaborators\<close>

fun next_fault :: "bool list \<Rightarrow> bool \<times> bool list" where
  "next_fault [] = (False, [])"
| "next_fault (f # fs) = (f, fs)"

subsection \<open>The database\<close>

text \<open>
  \<^verbatim>\<open>ORDER BY CASE WHEN a.status = 'pending' THEN 0 ELSE 1 END, a.appointment_date, a.start_time\<close>:
  the rows are compared by this key, lexicographically. SQL leaves the order of rows
  with equal keys open; the model keeps them in table order.
\<close>

definition order_key :: "'a appointment_scheme \<Rightarrow> nat \<times> int \<times> int" where
  "order_key a = (if status a = ''pending'' then 0 else 1, appointment_date a, start_time a)"

definition dash_join :: "appointment \<Rightarrow> patient \<Rightarrow> dash_row" where
  "dash_join a p =
     \<lparr>a_id = a_id a, doctor_id = doctor_id a, patient_id = patient_id a, status = status a,
      appointment_date = appointment_date a, start_time = start_time a, end_time = end_time a,
      patient_name = p_name p\<rparr>"

definition dashboard_join :: "int \<Rightarrow> env \<Rightarrow> dash_row list" where
  "dashboard_join d env =
     concat (map (\<lambda>a. map (dash_join a) (filter (\<lambda>p. patient_id a = p_id p) (patients env)))
                 (filter (\<lambda>a. doctor_id a = d) (appointments env)))"

definition dashboard_rows :: "int \<Rightarrow> env \<Rightarrow> dash_row list" where
  "dashboard_rows d env = sort_key order_key (dashboard_join d env)"

definition full_join :: "appointment \<Rightarrow> patient \<Rightarrow> doctor \<Rightarrow> joined_row" where
  "full_join a p d =
     \<lparr>a_id = a_id a, doctor_id = doctor_id a, patient_id = p_id p, status = status a,
      appointment_date = appointment_date a, start_time = start_time a, end_time = end_time a,
      patient_name = p_name p, doctor_name = d_name d, specialization = d_specialization d\<rparr>"

definition appointment_rows :: "int \<Rightarrow> env \<Rightarrow> joined_row list" where
  "appointment_rows i env =
     concat (map (\<lambda>a. concat (map (\<lambda>p. map (full_join a p)
                                    (filter (\<lambda>d. doctor_id a = d_id d) (doctors env)))
                          (filter (\<lambda>p. patient_id a = p_id p) (patients env))))
                 (filter (\<lambda>a. a_id a = i) (appointments env)))"

definition set_status :: "string \<Rightarrow> int \<Rightarrow> appointment list \<Rightarrow> appointment list" where
  "set_status s i as = map (\<lambda>a. if a_id a = i then a\<lparr>status := s\<rparr> else a) as"

text \<open>
  \<^verbatim>\<open>db.query\<close>: the call rejects when the fault script says so, and then nothing is
  executed; otherwise the statement is executed and logged.
\<close>

definition db_begin :: "sql \<Rightarrow> env \<Rightarrow> bool \<times> env" where
  "db_begin q env =
     (case next_fault (db_faults env) of
        (f, fs) \<Rightarrow>
          if f then (False, env\<lparr>db_faults := fs\<rparr>)
          else (True, env\<lparr>db_faults := fs, db_log := db_log env @ [q]\<rparr>))"

definition db_select_dashboard :: "int \<Rightarrow> env \<Rightarrow> (exn + dash_row list) \<times> env" where
  "db_select_dashboard d env =
     (case db_begin (SelectDashboard d) env of
        (ok, env1) \<Rightarrow>
          if ok then (Inr (dashboard_rows d env1), env1)
          else (Inl DbError, env1))"

definition db_select_appointment :: "int \<Rightarrow> env \<Rightarrow> (exn + joined_row list) \<times> env" where
  "db_select_appointment i env =
     (case db_begin (SelectAppointment i) env of
        (ok, env1) \<Rightarrow>
          if ok then (Inr (appointment_rows i env1), env1)
          else (Inl DbError, env1))"

definition db_update_status :: "string \<Rightarrow> int \<Rightarrow> env \<Rightarrow> (exn + unit) \<times> env" where
  "db_update_status s i env =
     (case db_begin (UpdateStatus s i) env of
        (ok, env1) \<Rightarrow>
          if ok then (Inr (), env1\<lparr>appointments := set_status s i (appointments env1)\<rparr>)
          else (Inl DbError, env1))"

definition db_select_doctor_ids :: "env \<Rightarrow> (exn + int list) \<times> env" where
  "db_select_doctor_ids env =
     (case db_begin SelectDoctorIds env of
        (ok, env1) \<Rightarrow>
          if ok then (Inr (map d_id (doctors env1)), env1)
          else (Inl DbError, env1))"

subsection \<open>Redis as cache and presence store\<close>

text \<open>The value a key holds now: an entry is gone once the clock has reached its expiry.\<close>

fun live_value :: "nat \<Rightarrow> (redis_value \<times> nat option) option \<Rightarrow> redis_value option" where
  "live_value now None = None"
| "live_value now (Some (v, None)) = Some v"
| "live_value now (Some (v, Some t)) = (if now < t then Some v else None)"

definition redis_lookup :: "env \<Rightarrow> cache_key \<Rightarrow> redis_value option" where
  "redis_lookup env k = live_value (clock env) (redis_data env k)"

definition redis_begin :: "env \<Rightarrow> bool \<times> env" where
  "redis_begin env =
     (case next_fault (redis_faults env) of
        (f, fs) \<Rightarrow> (\<not> f, env\<lparr>redis_faults := fs\<rparr>))"

definition redis_get :: "cache_key \<Rightarrow> env \<Rightarrow> (exn + redis_value option) \<times> env" where
  "redis_get k env =
     (case redis_begin env of
        (ok, env1) \<Rightarrow>
          if ok then (Inr (redis_lookup env1 k), env1)
          else (Inl RedisError, env1))"

definition redis_set :: "cache_key \<Rightarrow> redis_value \<Rightarrow> env \<Rightarrow> (exn + unit) \<times> env" where
  "redis_set k v env =
     (case redis_begin env of
        (ok, env1) \<Rightarrow>
          if ok then (Inr (), env1\<lparr>redis_data := (redis_data env1)(k \<mapsto> (v, None))\<rparr>)
          else (Inl RedisError, env1))"

definition redis_setEx :: "cache_key \<Rightarrow> nat \<Rightarrow> redis_value \<Rightarrow> env \<Rightarrow> (exn + unit) \<times> env" where
  "redis_setEx k ttl v env =
     (case redis_begin env of
        (ok, env1) \<Rightarrow>
          if ok then (Inr (), env1\<lparr>redis_data := (redis_data env1)(k \<mapsto> (v, Some (clock env1 + ttl)))\<rparr>)
          else (Inl RedisError, env1))"

definition redis_del :: "cache_key \<Rightarrow> env \<Rightarrow> (exn + unit) \<times> env" where
  "redis_del k env =
     (case redis_begin env of
        (ok, env1) \<Rightarrow>
          if ok then (Inr (), env1\<lparr>redis_data := (redis_data env1)(k := None)\<rparr>)
          else (Inl RedisError, env1))"

text \<open>Time passing with no request in between.\<close>

definition wait :: "nat \<Rightarrow> env \<Rightarrow> env" where
  "wait t env = env\<lparr>clock := clock env + t\<rparr>"

text \<open>JavaScript's truthiness of a string, and \<^verbatim>\<open>JSON.parse\<close> on a cached text.\<close>

fun truthy :: "redis_value \<Rightarrow> bool" where
  "truthy (Str s) = (s \<noteq> [])"
| "truthy (Json rows) = True"

fun JSON_parse :: "redis_value \<Rightarrow> exn + dash_row list" where
  "JSON_parse (Json rows) = Inr rows"
| "JSON_parse (Str s) = Inl SyntaxError"

subsection \<open>The broadcast channel and the direct channel\<close>

definition publish :: "string \<Rightarrow> event \<Rightarrow> env \<Rightarrow> (exn + unit) \<times> env" where
  "publish topic ev env =
     (case next_fault (pub_faults env) of
        (f, fs) \<Rightarrow>
          if f then (Inl RedisError, env\<lparr>pub_faults := fs\<rparr>)
          else (Inr (), env\<lparr>pub_faults := fs, published := published env @ [(topic, ev)]\<rparr>))"

definition io_emit :: "string \<Rightarrow> event \<Rightarrow> env \<Rightarrow> (exn + unit) \<times> env" where
  "io_emit name ev env =
     (if io_present env then (Inr (), env\<lparr>emitted := emitted env @ [(name, ev)]\<rparr>)
      else (Inl TypeError, env))"

section \<open>GET /dashboard\<close>

text \<open>Lines 30-43: the cache read, every failure of which is caught and logged.\<close>

definition dashboard_cache_read :: "int \<Rightarrow> env \<Rightarrow> dash_row list option \<times> env" where
  "dashboard_cache_read doc_id env =
     (if redis_isOpen env then
        (case redis_get (AppointmentsKey doc_id) env of
           (Inl cacheErr, env1) \<Rightarrow> (None, env1)
         | (Inr None, env1) \<Rightarrow> (None, env1)
         | (Inr (Some cachedData), env1) \<Rightarrow>
             if truthy cachedData then
               (case JSON_parse cachedData of
                  Inl cacheErr \<Rightarrow> (None, env1)
                | Inr rows \<Rightarrow> (Some rows, env1))
             else (None, env1))
      else (None, env))"

text \<open>Lines 62-69: the cache write, every failure of which is caught and logged.\<close>

definition dashboard_cache_write :: "int \<Rightarrow> dash_row list \<Rightarrow> env \<Rightarrow> env" where
  "dashboard_cache_write doc_id rows env =
     (if redis_isOpen env then snd (redis_setEx (AppointmentsKey doc_id) 45 (Json rows) env)
      else env)"

text \<open>
  The handler. The outer \<^verbatim>\<open>catch\<close> (lines 81-89) guards the session access and
  \<^verbatim>\<open>res.render\<close>, which are not modelled: every exception of a modelled call is
  caught by an inner \<^verbatim>\<open>catch\<close>.
\<close>

definition dashboard :: "int \<Rightarrow> env \<Rightarrow> response \<times> env" where
  "dashboard doc_id env =
     (case dashboard_cache_read doc_id env of
        (Some rows, env1) \<Rightarrow> (Render None rows True, env1)
      | (None, env1) \<Rightarrow>
          (case db_select_dashboard doc_id env1 of
             (Inl err, env2) \<Rightarrow> (Render None [] False, env2)
           | (Inr rows, env2) \<Rightarrow>
               (Render None rows False, dashboard_cache_write doc_id rows env2)))"

section \<open>POST /appointment/:id/accept and POST /appointment/:id/reject\<close>

text \<open>
  The route parameter is modelled as the integer it denotes, so that
  \<^verbatim>\<open>parseInt(appointmentId)\<close> is the parameter itself; parameters that the store and
  \<^verbatim>\<open>parseInt\<close> read differently, or that the store refuses, are left out. \<^verbatim>\<open>rows[0]\<close> of an empty
  result is \<^verbatim>\<open>undefined\<close> (\<open>None\<close>), and reading a property of it throws a
  \<^verbatim>\<open>TypeError\<close>: inside the \<^verbatim>\<open>try\<close> of lines 113-121 the error is caught and
  logged, at line 126 it reaches the handler's own \<^verbatim>\<open>catch\<close>.
\<close>

definition accept_appointment :: "int \<Rightarrow> env \<Rightarrow> response \<times> env" where
  "accept_appointment appointmentId env =
     (case db_select_appointment appointmentId env of
        (Inl err, env1) \<Rightarrow> (Send 500 ''Error accepting appointment'', env1)
      | (Inr rows, env1) \<Rightarrow>
     (case db_update_status ''accepted'' appointmentId env1 of
        (Inl err, env2) \<Rightarrow> (Send 500 ''Error accepting appointment'', env2)
      | (Inr _, env2) \<Rightarrow>
     (let appointment = (case rows of [] \<Rightarrow> None | r # _ \<Rightarrow> Some r);
          env3 = (if redis_isOpen env2 then
                    (case appointment of
                       None \<Rightarrow> env2
                     | Some a \<Rightarrow> snd (redis_del (AppointmentsKey (doctor_id a)) env2))
                  else env2)
      in case appointment of
           None \<Rightarrow> (Send 500 ''Error accepting appointment'', env3)
         | Some a \<Rightarrow>
             (let eventData = AppointmentEvent
                    \<lparr>ev_appointmentId = appointmentId, ev_patientId = patient_id a,
                     ev_status = ''accepted'', ev_doctorName = doctor_name a,
                     ev_specialization = specialization a,
                     ev_appointmentDate = appointment_date a,
                     ev_startTime = start_time a, ev_endTime = end_time a\<rparr>
              in if pub_isOpen env3 then
                   (case publish ''appointment:updated'' eventData env3 of
                      (Inr _, env4) \<Rightarrow> (Redirect ''/doctors/dashboard'', env4)
                    | (Inl pubErr, env4) \<Rightarrow>
                        (case io_emit ''appointmentStatusUpdated'' eventData env4 of
                           (Inr _, env5) \<Rightarrow> (Redirect ''/doctors/dashboard'', env5)
                         | (Inl err, env5) \<Rightarrow> (Send 500 ''Error accepting appointment'', env5)))
                 else
                   (case io_emit ''appointmentStatusUpdated'' eventData env3 of
                      (Inr _, env4) \<Rightarrow> (Redirect ''/doctors/dashboard'', env4)
                    | (Inl err, env4) \<Rightarrow> (Send 500 ''Error accepting appointment'', env4))))))"

definition reject_appointment :: "int \<Rightarrow> env \<Rightarrow> response \<times> env" where
  "reject_appointment appointmentId env =
     (case db_select_appointment appointmentId env of
        (Inl err, env1) \<Rightarrow> (Send 500 ''Error rejecting appointment'', env1)
      | (Inr rows, env1) \<Rightarrow>
     (case db_update_status ''rejected'' appointmentId env1 of
        (Inl err, env2) \<Rightarrow> (Send 500 ''Error rejecting appointment'', env2)
      | (Inr _, env2) \<Rightarrow>
     (let appointment = (case rows of [] \<Rightarrow> None | r # _ \<Rightarrow> Some r);
          env3 = (if redis_isOpen env2 then
                    (case appointment of
                       None \<Rightarrow> env2
                     | Some a \<Rightarrow> snd (redis_del (AppointmentsKey (doctor_id a)) env2))
                  else env2)
      in case appointment of
           None \<Rightarrow> (Send 500 ''Error rejecting appointment'', env3)
         | Some a \<Rightarrow>
             (let eventData = AppointmentEvent
                    \<lparr>ev_appointmentId = appointmentId, ev_patientId = patient_id a,
                     ev_status = ''rejected'', ev_doctorName = doctor_name a,
                     ev_specialization = specialization a,
                     ev_appointmentDate = appointment_date a,
                     ev_startTime = start_time a, ev_endTime = end_time a\<rparr>
              in if pub_isOpen env3 then
                   (case publish ''appointment:updated'' eventData env3 of
                      (Inr _, env4) \<Rightarrow> (Redirect ''/doctors/dashboard'', env4)
                    | (Inl pubErr, env4) \<Rightarrow>
                        (case io_emit ''appointmentStatusUpdated'' eventData env4 of
                           (Inr _, env5) \<Rightarrow> (Redirect ''/doctors/dashboard'', env5)
                         | (Inl err, env5) \<Rightarrow> (Send 500 ''Error rejecting appointment'', env5)))
                 else
                   (case io_emit ''appointmentStatusUpdated'' eventData env3 of
                      (Inr _, env4) \<Rightarrow> (Redirect ''/doctors/dashboard'', env4)
                    | (Inl err, env4) \<Rightarrow> (Send 500 ''Error rejecting appointment'', env4))))))"

text \<open>
  The accept handler with its literal \<^verbatim>\<open>'accepted'\<close> (lines 107 and 127) replaced by a
  parameter, everything else as in lines 93-157.
\<close>

definition accept_with_status :: "string \<Rightarrow> int \<Rightarrow> env \<Rightarrow> response \<times> env" where
  "accept_with_status newStatus appointmentId env =
     (case db_select_appointment appointmentId env of
        (Inl err, env1) \<Rightarrow> (Send 500 ''Error accepting appointment'', env1)
      | (Inr rows, env1) \<Rightarrow>
     (case db_update_status newStatus appointmentId env1 of
        (Inl err, env2) \<Rightarrow> (Send 500 ''Error accepting appointment'', env2)
      | (Inr _, env2) \<Rightarrow>
     (let appointment = (case rows of [] \<Rightarrow> None | r # _ \<Rightarrow> Some r);
          env3 = (if redis_isOpen env2 then
                    (case appointment of
                       None \<Rightarrow> env2
                     | Some a \<Rightarrow> snd (redis_del (AppointmentsKey (doctor_id a)) env2))
                  else env2)
      in case appointment of
           None \<Rightarrow> (Send 500 ''Error accepting appointment'', env3)
         | Some a \<Rightarrow>
             (let eventData = AppointmentEvent
                    \<lparr>ev_appointmentId = appointmentId, ev_patientId = patient_id a,
                     ev_status = newStatus, ev_doctorName = doctor_name a,
                     ev_specialization = specialization a,
                     ev_appointmentDate = appointment_date a,
                     ev_startTime = start_time a, ev_endTime = end_time a\<rparr>
              in if pub_isOpen env3 then
                   (case publish ''appointment:updated'' eventData env3 of
                      (Inr _, env4) \<Rightarrow> (Redirect ''/doctors/dashboard'', env4)
                    | (Inl pubErr, env4) \<Rightarrow>
                        (case io_emit ''appointmentStatusUpdated'' eventData env4 of
                           (Inr _, env5) \<Rightarrow> (Redirect ''/doctors/dashboard'', env5)
                         | (Inl err, env5) \<Rightarrow> (Send 500 ''Error accepting appointment'', env5)))
                 else
                   (case io_emit ''appointmentStatusUpdated'' eventData env3 of
                      (Inr _, env4) \<Rightarrow> (Redirect ''/doctors/dashboard'', env4)
                    | (Inl err, env4) \<Rightarrow> (Send 500 ''Error accepting appointment'', env4))))))"

text \<open>The text of the 500 response is the one place where the two handlers differ otherwise.\<close>

fun reject_wording :: "response \<Rightarrow> response" where
  "reject_wording (Send code text) =
     (if code = 500 \<and> text = ''Error accepting appointment''
      then Send 500 ''Error rejecting appointment'' else Send code text)"
| "reject_wording r = r"

section \<open>POST /status/update, GET /status and GET /status/all\<close>

text \<open>\<^verbatim>\<open>req.body.status\<close>: a string, or any other value.\<close>

datatype js_value = JString string | JOther

definition validStatuses :: "string list" where
  "validStatuses = [''available'', ''busy'', ''offline'']"

fun array_includes :: "string list \<Rightarrow> js_value \<Rightarrow> bool" where
  "array_includes xs (JString s) = (s \<in> set xs)"
| "array_includes xs JOther = False"

text \<open>
  The timestamp of the event is the clock's reading. A rejected \<^verbatim>\<open>set\<close>,
  \<^verbatim>\<open>setEx\<close> or \<^verbatim>\<open>publish\<close> is caught at line 273 only.
\<close>

definition status_update :: "int \<Rightarrow> string \<Rightarrow> js_value \<Rightarrow> env \<Rightarrow> response \<times> env" where
  "status_update doctorId doctorName newStatus env =
     (if \<not> array_includes validStatuses newStatus then
        (JsonError 400 ''Invalid status. Must be available, busy, or offline.'', env)
      else
        (case newStatus of
           JOther \<Rightarrow> (JsonError 400 ''Invalid status. Must be available, busy, or offline.'', env)
         | JString s \<Rightarrow>
             if redis_isOpen env then
               (case (if s = ''offline'' then redis_set (StatusKey doctorId) (Str s) env
                      else redis_setEx (StatusKey doctorId) 1800 (Str s) env) of
                  (Inl err, env1) \<Rightarrow> (JsonError 500 ''Failed to update status'', env1)
                | (Inr _, env1) \<Rightarrow>
                    (let statusEvent = StatusEvent
                           \<lparr>se_doctorId = doctorId, se_doctorName = doctorName,
                            se_status = s, se_timestamp = clock env1\<rparr>
                     in if pub_isOpen env1 then
                          (case publish ''doctor:status:changed'' statusEvent env1 of
                             (Inl err, env2) \<Rightarrow> (JsonError 500 ''Failed to update status'', env2)
                           | (Inr _, env2) \<Rightarrow> (JsonSuccess s, env2))
                        else (JsonSuccess s, env1)))
             else (JsonError 503 ''Redis unavailable'', env)))"

text \<open>\<^verbatim>\<open>await redisClient.get(statusKey) || 'offline'\<close>.\<close>

definition or_offline :: "redis_value option \<Rightarrow> redis_value" where
  "or_offline v =
     (case v of None \<Rightarrow> Str ''offline'' | Some x \<Rightarrow> if truthy x then x else Str ''offline'')"

definition get_status :: "int \<Rightarrow> env \<Rightarrow> response \<times> env" where
  "get_status doctorId env =
     (if redis_isOpen env then
        (case redis_get (StatusKey doctorId) env of
           (Inl err, env1) \<Rightarrow> (JsonStatus (Str ''offline''), env1)
         | (Inr v, env1) \<Rightarrow> (JsonStatus (or_offline v), env1))
      else (JsonStatus (Str ''offline''), env))"

text \<open>The loop of lines 308-312; a rejected \<^verbatim>\<open>get\<close> leaves it through the handler's \<^verbatim>\<open>catch\<close>.\<close>

fun collect_statuses ::
  "int list \<Rightarrow> (int \<rightharpoonup> redis_value) \<Rightarrow> env \<Rightarrow> (exn + (int \<rightharpoonup> redis_value)) \<times> env" where
  "collect_statuses [] statuses env = (Inr statuses, env)"
| "collect_statuses (i # ids) statuses env =
     (case redis_get (StatusKey i) env of
        (Inl err, env1) \<Rightarrow> (Inl err, env1)
      | (Inr v, env1) \<Rightarrow> collect_statuses ids (statuses(i \<mapsto> or_offline v)) env1)"

definition status_all :: "env \<Rightarrow> response \<times> env" where
  "status_all env =
     (case db_select_doctor_ids env of
        (Inl err, env1) \<Rightarrow> (JsonError 500 ''Failed to get statuses'', env1)
      | (Inr doctorIds, env1) \<Rightarrow>
          if redis_isOpen env1 then
            (case collect_statuses doctorIds Map.empty env1 of
               (Inl err, env2) \<Rightarrow> (JsonError 500 ''Failed to get statuses'', env2)
             | (Inr statuses, env2) \<Rightarrow> (JsonStatuses statuses, env2))
          else
            (JsonStatuses (fold (\<lambda>i statuses. statuses(i \<mapsto> Str ''offline'')) doctorIds Map.empty),
             env1))"

section \<open>Example states\<close>

text \<open>
  Doctor 1 has three appointments, one pending and two accepted, on 2024-01-10 (day
  19732) and 2024-01-05 (day 19727); doctor 2 has one. Every collaborator is up and the
  cache is cold.
\<close>

definition example_env :: env where
  "example_env =
     \<lparr>clock = 1000, db_faults = [], db_log = [],
      appointments =
        [\<lparr>a_id = 41, doctor_id = 1, patient_id = 7, status = ''accepted'',
          appointment_date = 19732, start_time = 32400, end_time = 34200\<rparr>,
         \<lparr>a_id = 42, doctor_id = 1, patient_id = 7, status = ''pending'',
          appointment_date = 19737, start_time = 36000, end_time = 37800\<rparr>,
         \<lparr>a_id = 43, doctor_id = 1, patient_id = 8, status = ''accepted'',
          appointment_date = 19727, start_time = 50400, end_time = 52200\<rparr>,
         \<lparr>a_id = 44, doctor_id = 2, patient_id = 8, status = ''pending'',
          appointment_date = 19725, start_time = 32400, end_time = 34200\<rparr>],
      patients = [\<lparr>p_id = 7, p_name = ''Ada''\<rparr>, \<lparr>p_id = 8, p_name = ''Bob''\<rparr>],
      doctors = [\<lparr>d_id = 1, d_name = ''Dr One'', d_specialization = ''Cardiology''\<rparr>,
                 \<lparr>d_id = 2, d_name = ''Dr Two'', d_specialization = ''Dermatology''\<rparr>],
      redis_isOpen = True, redis_faults = [], redis_data = Map.empty,
      pub_isOpen = True, pub_faults = [], published = [],
      io_present = True, emitted = []\<rparr>"

text \<open>The listing of doctor 1 in the order the dashboard query gives it.\<close>

definition example_rows :: "dash_row list" where
  "example_rows =
     [\<lparr>a_id = 42, doctor_id = 1, patient_id = 7, status = ''pending'',
       appointment_date = 19737, start_time = 36000, end_time = 37800, patient_name = ''Ada''\<rparr>,
      \<lparr>a_id = 43, doctor_id = 1, patient_id = 8, status = ''accepted'',
       appointment_date = 19727, start_time = 50400, end_time = 52200, patient_name = ''Bob''\<rparr>,
      \<lparr>a_id = 41, doctor_id = 1, patient_id = 7, status = ''accepted'',
       appointment_date = 19732, start_time = 32400, end_time = 34200, patient_name = ''Ada''\<rparr>]"

text \<open>
  The same state with the next store query rejecting, with the next cache call rejecting,
  and with the second cache call rejecting.
\<close>

definition store_down_env :: env where
  "store_down_env = example_env\<lparr>db_faults := [True]\<rparr>"

definition cache_get_fails_env :: env where
  "cache_get_fails_env = example_env\<lparr>redis_faults := [True]\<rparr>"

definition cache_set_fails_env :: env where
  "cache_set_fails_env = example_env\<lparr>redis_faults := [False, True]\<rparr>"

text \<open>
  The same state with the next \<^verbatim>\<open>publish\<close> rejecting, with the publisher closed, and
  with doctor 1 marked busy in the presence store.
\<close>

definition publish_fails_env :: env where
  "publish_fails_env = example_env\<lparr>pub_faults := [True]\<rparr>"

definition publisher_closed_env :: env where
  "publisher_closed_env = example_env\<lparr>pub_isOpen := False\<rparr>"

definition presence_env :: env where
  "presence_env = example_env\<lparr>redis_data := [StatusKey 1 \<mapsto> (Str ''busy'', Some 2800)]\<rparr>"

text \<open>That state with the second cache call rejecting on the open client.\<close>

definition presence_get_fails_env :: env where
  "presence_get_fails_env = presence_env\<lparr>redis_faults := [False, True]\<rparr>"

section \<open>Properties\<close>

subsection \<open>The collaborators, call by call\<close>

lemma dashboard_rows_cong:
  "appointments e' = appointments e \<Longrightarrow> patients e' = patients e \<Longrightarrow>
   dashboard_rows d e' = dashboard_rows d e"
  by (simp add: dashboard_rows_def dashboard_join_def)

lemma redis_lookup_frame:
  "redis_lookup (env\<lparr>redis_faults := fs\<rparr>) k = redis_lookup env k"
  by (simp add: redis_lookup_def)

lemma dashboard_rows_frame:
  "dashboard_rows d (env\<lparr>db_faults := fs, db_log := l\<rparr>) = dashboard_rows d env"
  by (simp add: dashboard_rows_def dashboard_join_def)

lemma db_begin_unfold:
  "db_begin q env =
     (if fst (next_fault (db_faults env))
      then (False, env\<lparr>db_faults := snd (next_fault (db_faults env))\<rparr>)
      else (True, env\<lparr>db_faults := snd (next_fault (db_faults env)),
                       db_log := db_log env @ [q]\<rparr>))"
  by (simp add: db_begin_def split: prod.splits)

lemma redis_begin_unfold:
  "redis_begin env =
     (\<not> fst (next_fault (redis_faults env)),
      env\<lparr>redis_faults := snd (next_fault (redis_faults env))\<rparr>)"
  by (simp add: redis_begin_def split: prod.splits)

lemma redis_get_unfold:
  "redis_get k env =
     (if fst (next_fault (redis_faults env)) then Inl RedisError else Inr (redis_lookup env k),
      env\<lparr>redis_faults := snd (next_fault (redis_faults env))\<rparr>)"
  by (simp add: redis_get_def redis_begin_unfold redis_lookup_frame)

lemma redis_setEx_unfold:
  "redis_setEx k ttl v env =
     (if fst (next_fault (redis_faults env))
      then (Inl RedisError, env\<lparr>redis_faults := snd (next_fault (redis_faults env))\<rparr>)
      else (Inr (), env\<lparr>redis_faults := snd (next_fault (redis_faults env)),
                         redis_data := (redis_data env)(k \<mapsto> (v, Some (clock env + ttl)))\<rparr>))"
  by (simp add: redis_setEx_def redis_begin_unfold)

lemma redis_setEx_ok:
  "fst (redis_setEx k ttl v env) = Inr () \<Longrightarrow>
   redis_data (snd (redis_setEx k ttl v env)) k = Some (v, Some (clock env + ttl))"
  by (simp add: redis_setEx_unfold split: if_splits)

lemma db_select_dashboard_unfold:
  "db_select_dashboard d env =
     (if fst (next_fault (db_faults env))
      then (Inl DbError, env\<lparr>db_faults := snd (next_fault (db_faults env))\<rparr>)
      else (Inr (dashboard_rows d env),
            env\<lparr>db_faults := snd (next_fault (db_faults env)),
                db_log := db_log env @ [SelectDashboard d]\<rparr>))"
  by (simp add: db_select_dashboard_def db_begin_unfold dashboard_rows_frame)

lemma snd_dashboard_cache_read:
  "snd (dashboard_cache_read d env) =
     (if redis_isOpen env then env\<lparr>redis_faults := snd (next_fault (redis_faults env))\<rparr> else env)"
  by (simp add: dashboard_cache_read_def redis_get_unfold split: option.splits sum.splits)

lemma dashboard_cache_read_frame:
  assumes "dashboard_cache_read d env = (r, env1)"
  shows "clock env1 = clock env" and "redis_isOpen env1 = redis_isOpen env"
    and "redis_data env1 = redis_data env" and "appointments env1 = appointments env"
    and "patients env1 = patients env" and "db_faults env1 = db_faults env"
proof -
  have "env1 = snd (dashboard_cache_read d env)"
    using assms by simp
  then show "clock env1 = clock env" and "redis_isOpen env1 = redis_isOpen env"
    and "redis_data env1 = redis_data env" and "appointments env1 = appointments env"
    and "patients env1 = patients env" and "db_faults env1 = db_faults env"
    by (simp_all add: snd_dashboard_cache_read)
qed

lemma db_select_dashboard_ok:
  assumes "db_select_dashboard d env1 = (Inr rows, env2)"
  shows "rows = dashboard_rows d env1" and "clock env2 = clock env1"
    and "redis_isOpen env2 = redis_isOpen env1" and "redis_data env2 = redis_data env1"
    and "redis_faults env2 = redis_faults env1"
  using assms by (auto simp: db_select_dashboard_unfold split: if_splits)

lemma order_key_sorted_nth:
  assumes "sorted (map order_key rows)" and "i < j" and "j < length rows"
  shows "(status (rows ! j) = ''pending'' \<longrightarrow> status (rows ! i) = ''pending'') \<and>
         ((status (rows ! i) = ''pending'') = (status (rows ! j) = ''pending'') \<longrightarrow>
            appointment_date (rows ! i) \<le> appointment_date (rows ! j) \<and>
            (appointment_date (rows ! i) = appointment_date (rows ! j) \<longrightarrow>
               start_time (rows ! i) \<le> start_time (rows ! j)))"
proof -
  from assms have "map order_key rows ! i \<le> map order_key rows ! j"
    by (intro sorted_nth_mono) auto
  with assms have "order_key (rows ! i) \<le> order_key (rows ! j)"
    by simp
  then show ?thesis
    by (auto simp: order_key_def less_eq_prod_def split: if_splits)
qed

lemma set_dashboard_join:
  "set (dashboard_join d env) =
     {dash_join a p | a p. a \<in> set (appointments env) \<and> doctor_id a = d \<and>
                           p \<in> set (patients env) \<and> patient_id a = p_id p}"
  by (auto simp: dashboard_join_def)

lemma example_rows_eval: "dashboard_rows 1 example_env = example_rows"
  by (simp add: dashboard_rows_def dashboard_join_def example_env_def example_rows_def
      dash_join_def order_key_def less_eq_prod_def)

lemma example_cache_read: "dashboard_cache_read 1 example_env = (None, example_env)"
  by (simp add: dashboard_cache_read_def redis_get_unfold redis_lookup_def example_env_def)

lemma example_store_read:
  "db_select_dashboard 1 example_env = (Inr example_rows, example_env\<lparr>db_log := [SelectDashboard 1]\<rparr>)"
  by (simp add: db_select_dashboard_unfold example_rows_eval) (simp add: example_env_def)

subsection \<open>The dashboard read\<close>

text \<open>
  C2. When the cache read of \<^verbatim>\<open>GET /dashboard\<close> is a miss (the client is closed, the
  \<^verbatim>\<open>get\<close> rejects, the key is absent or expired, or its text does not parse) and the
  store query succeeds, the handler renders the rows of the query with
  \<^verbatim>\<open>fromCache = false\<close>. These rows are the doctor's appointments joined with their
  patients, every pending row comes before every row that is not pending, and two rows
  that are both pending or both not pending are in ascending order of date and, on the
  same date, of start time. When the client is open and the \<^verbatim>\<open>setEx\<close> resolves, the
  cache then holds these rows under the doctor's key, expiring 45 seconds after the read.
\<close>

theorem dashboard_miss_ordered_and_cached:
  assumes miss: "dashboard_cache_read d env = (None, env1)"
    and store: "db_select_dashboard d env1 = (Inr rows, env2)"
  shows "fst (dashboard d env) = Render None rows False \<and>
         mset rows = mset (dashboard_join d env) \<and>
         set rows = {dash_join a p | a p. a \<in> set (appointments env) \<and> doctor_id a = d \<and>
                                          p \<in> set (patients env) \<and> patient_id a = p_id p} \<and>
         (\<forall>i j. i < j \<and> j < length rows \<longrightarrow>
            (status (rows ! j) = ''pending'' \<longrightarrow> status (rows ! i) = ''pending'') \<and>
            ((status (rows ! i) = ''pending'') = (status (rows ! j) = ''pending'') \<longrightarrow>
               appointment_date (rows ! i) \<le> appointment_date (rows ! j) \<and>
               (appointment_date (rows ! i) = appointment_date (rows ! j) \<longrightarrow>
                  start_time (rows ! i) \<le> start_time (rows ! j)))) \<and>
         (redis_isOpen env \<and> fst (redis_setEx (AppointmentsKey d) 45 (Json rows) env2) = Inr () \<longrightarrow>
            redis_data (snd (dashboard d env)) (AppointmentsKey d) =
              Some (Json rows, Some (clock env + 45)))"
proof -
  note f1 = dashboard_cache_read_frame [OF miss]
  note f2 = db_select_dashboard_ok [OF store]
  have resp: "fst (dashboard d env) = Render None rows False"
    using miss store by (simp add: dashboard_def)
  have "dashboard_rows d env1 = dashboard_rows d env"
    using f1 by (intro dashboard_rows_cong)
  with f2(1) have rows': "rows = sort_key order_key (dashboard_join d env)"
    by (simp add: dashboard_rows_def)
  have perm: "mset rows = mset (dashboard_join d env)"
    by (simp add: rows')
  have owner: "set rows = {dash_join a p | a p. a \<in> set (appointments env) \<and> doctor_id a = d \<and>
                                          p \<in> set (patients env) \<and> patient_id a = p_id p}"
    by (simp add: rows' set_dashboard_join)
  have srt: "sorted (map order_key rows)"
    by (simp add: rows')
  have cached: "redis_data (snd (dashboard d env)) (AppointmentsKey d) =
                  Some (Json rows, Some (clock env + 45))"
    if "redis_isOpen env" and "fst (redis_setEx (AppointmentsKey d) 45 (Json rows) env2) = Inr ()"
  proof -
    have open2: "redis_isOpen env2" and clock2: "clock env2 = clock env"
      using that(1) f1 f2 by simp_all
    have "snd (dashboard d env) = dashboard_cache_write d rows env2"
      using miss store by (simp add: dashboard_def)
    then have "snd (dashboard d env) = snd (redis_setEx (AppointmentsKey d) 45 (Json rows) env2)"
      using open2 by (simp add: dashboard_cache_write_def)
    with redis_setEx_ok [OF that(2)] clock2 show ?thesis
      by simp
  qed
  have ordered: "\<forall>i j. i < j \<and> j < length rows \<longrightarrow>
            (status (rows ! j) = ''pending'' \<longrightarrow> status (rows ! i) = ''pending'') \<and>
            ((status (rows ! i) = ''pending'') = (status (rows ! j) = ''pending'') \<longrightarrow>
               appointment_date (rows ! i) \<le> appointment_date (rows ! j) \<and>
               (appointment_date (rows ! i) = appointment_date (rows ! j) \<longrightarrow>
                  start_time (rows ! i) \<le> start_time (rows ! j)))"
    using order_key_sorted_nth [OF srt] by blast
  from resp perm owner ordered cached show ?thesis
    by blast
qed

theorem dashboard_miss_ordered_and_cached_witness:
  "dashboard_cache_read 1 example_env = (None, example_env) \<and>
   fst (db_select_dashboard 1 example_env) = Inr example_rows \<and>
   fst (dashboard 1 example_env) = Render None example_rows False \<and>
   redis_data (snd (dashboard 1 example_env)) (AppointmentsKey 1) =
     Some (Json example_rows, Some 1045)"
  using dashboard_miss_ordered_and_cached [OF example_cache_read example_store_read]
    example_cache_read example_store_read
  by (simp add: redis_setEx_unfold) (simp add: example_env_def)

subsection \<open>Invalid presence values\<close>

text \<open>
  C8. A call of \<^verbatim>\<open>POST /status/update\<close> whose status is not one of
  \<^verbatim>\<open>available\<close>, \<^verbatim>\<open>busy\<close>, \<^verbatim>\<open>offline\<close> is answered with status 400 and the
  invalid-status message, and leaves every collaborator as it was: the presence store is
  not written and no event is published or emitted.
\<close>

theorem status_update_invalid_rejected:
  "\<not> array_includes validStatuses newStatus \<Longrightarrow>
   status_update doctorId doctorName newStatus env =
     (JsonError 400 ''Invalid status. Must be available, busy, or offline.'', env)"
  by (simp add: status_update_def)

theorem status_update_invalid_rejected_witness:
  "\<not> array_includes validStatuses (JString ''flying'') \<and>
   status_update 1 ''Dr One'' (JString ''flying'') example_env =
     (JsonError 400 ''Invalid status. Must be available, busy, or offline.'', example_env)"
  using status_update_invalid_rejected [of "JString ''flying''" 1 "''Dr One''" example_env]
  by (simp add: validStatuses_def)

subsection \<open>The dashboard read when the store fails\<close>

lemma db_select_dashboard_fail:
  assumes "db_select_dashboard d env1 = (Inl err, env2)"
  shows "db_log env2 = db_log env1" and "appointments env2 = appointments env1"
    and "redis_data env2 = redis_data env1"
  using assms by (auto simp: db_select_dashboard_unfold split: if_splits)

lemma store_down_cache_read:
  "dashboard_cache_read 1 store_down_env = (None, store_down_env)"
  by (simp add: dashboard_cache_read_def redis_get_unfold redis_lookup_def store_down_env_def
      example_env_def)

lemma store_down_store_read:
  "db_select_dashboard 1 store_down_env = (Inl DbError, example_env)"
  by (simp add: db_select_dashboard_unfold store_down_env_def) (simp add: example_env_def)

text \<open>
  C4, as the code has it. When the store query of \<^verbatim>\<open>GET /dashboard\<close> rejects, the
  \<^verbatim>\<open>catch\<close> of line 70 logs the error and the handler renders the dashboard with an
  empty list of appointments, \<^verbatim>\<open>fromCache = false\<close> and \<^verbatim>\<open>error: null\<close>: the
  failure does not leave the handler, and no error is reported in the rendered result.
  Neither the cache nor the store is changed.
\<close>

theorem dashboard_store_failure_renders_empty:
  assumes miss: "dashboard_cache_read d env = (None, env1)"
    and fail: "db_select_dashboard d env1 = (Inl err, env2)"
  shows "dashboard d env = (Render None [] False, env2) \<and>
         redis_data env2 = redis_data env \<and> db_log env2 = db_log env"
proof -
  have "dashboard d env = (Render None [] False, env2)"
    using miss fail by (simp add: dashboard_def)
  moreover have "redis_data env2 = redis_data env"
    using db_select_dashboard_fail(3) [OF fail] dashboard_cache_read_frame(3) [OF miss] by simp
  moreover have "db_log env2 = db_log env"
    using db_select_dashboard_fail(1) [OF fail] miss
    by (auto simp: dashboard_cache_read_def redis_get_unfold split: if_splits option.splits sum.splits)
  ultimately show ?thesis by simp
qed

theorem dashboard_store_failure_renders_empty_witness:
  "dashboard_cache_read 1 store_down_env = (None, store_down_env) \<and>
   db_select_dashboard 1 store_down_env = (Inl DbError, example_env) \<and>
   dashboard 1 store_down_env = (Render None [] False, example_env)"
  using dashboard_store_failure_renders_empty [OF store_down_cache_read store_down_store_read]
    store_down_cache_read store_down_store_read
  by simp

text \<open>
  C4, as the claim has it, asks for an error flag in the rendered result. With the store
  down, the query rejects and the result is rendered with \<^verbatim>\<open>error: null\<close>.
\<close>

theorem dashboard_store_failure_no_error_flag:
  "fst (db_select_dashboard 1 (snd (dashboard_cache_read 1 store_down_env))) = Inl DbError \<and>
   fst (dashboard 1 store_down_env) = Render None [] False"
  by (simp add: dashboard_def store_down_cache_read store_down_store_read)

subsection \<open>The dashboard read when the cache fails\<close>

lemma get_fails_cache_read:
  "dashboard_cache_read 1 cache_get_fails_env = (None, example_env)"
  by (simp add: dashboard_cache_read_def redis_get_unfold cache_get_fails_env_def)
    (simp add: example_env_def)

lemma set_fails_cache_read:
  "dashboard_cache_read 1 cache_set_fails_env = (None, cache_get_fails_env)"
  by (simp add: dashboard_cache_read_def redis_get_unfold redis_lookup_def
      cache_set_fails_env_def cache_get_fails_env_def)
    (simp add: example_env_def)

lemma set_fails_store_read:
  "db_select_dashboard 1 cache_get_fails_env =
     (Inr example_rows, cache_get_fails_env\<lparr>db_log := [SelectDashboard 1]\<rparr>)"
proof -
  have "dashboard_rows 1 cache_get_fails_env = dashboard_rows 1 example_env"
    by (simp add: dashboard_rows_def dashboard_join_def cache_get_fails_env_def)
  then show ?thesis
    by (simp add: db_select_dashboard_unfold example_rows_eval)
      (simp add: cache_get_fails_env_def example_env_def)
qed

text \<open>
  C5. \<^verbatim>\<open>GET /dashboard\<close> always renders the dashboard with \<^verbatim>\<open>error: null\<close>. When the
  store query succeeds and the cache client is closed or the \<^verbatim>\<open>get\<close> rejects, the read
  is a miss and the rows of the store are rendered with \<^verbatim>\<open>fromCache = false\<close>; when
  the read is a miss and the \<^verbatim>\<open>setEx\<close> that follows the query rejects, the rows of the
  store are rendered all the same, with \<^verbatim>\<open>fromCache = false\<close>.
\<close>

theorem dashboard_cache_failure_not_surfaced:
  "(\<exists>rows fromCache. fst (dashboard d env) = Render None rows fromCache) \<and>
   (\<forall>rows env2.
      db_select_dashboard d (snd (dashboard_cache_read d env)) = (Inr rows, env2) \<longrightarrow>
        (\<not> redis_isOpen env \<or> fst (redis_get (AppointmentsKey d) env) = Inl RedisError \<longrightarrow>
           fst (dashboard d env) = Render None rows False \<and> rows = dashboard_rows d env) \<and>
        (fst (dashboard_cache_read d env) = None \<and>
         fst (redis_setEx (AppointmentsKey d) 45 (Json rows) env2) = Inl RedisError \<longrightarrow>
           fst (dashboard d env) = Render None rows False \<and> rows = dashboard_rows d env))"
proof (intro conjI allI impI)
  show "\<exists>rows fromCache. fst (dashboard d env) = Render None rows fromCache"
    by (auto simp: dashboard_def split: prod.splits option.splits sum.splits)
next
  fix rows env2
  assume store: "db_select_dashboard d (snd (dashboard_cache_read d env)) = (Inr rows, env2)"
  have store_rows: "rows = dashboard_rows d env"
    if "fst (dashboard_cache_read d env) = None"
  proof -
    from that have miss: "dashboard_cache_read d env = (None, snd (dashboard_cache_read d env))"
      by (simp add: prod_eq_iff)
    from db_select_dashboard_ok(1) [OF store] dashboard_cache_read_frame(4,5) [OF miss]
    show ?thesis
      by (simp add: dashboard_rows_def dashboard_join_def)
  qed
  have on_miss: "fst (dashboard d env) = Render None rows False"
    if "fst (dashboard_cache_read d env) = None"
    using that store by (cases "dashboard_cache_read d env") (simp add: dashboard_def)
  {
    assume "\<not> redis_isOpen env \<or> fst (redis_get (AppointmentsKey d) env) = Inl RedisError"
    then have miss: "fst (dashboard_cache_read d env) = None"
      by (cases "redis_get (AppointmentsKey d) env") (auto simp: dashboard_cache_read_def)
    from on_miss [OF miss] show "fst (dashboard d env) = Render None rows False" .
    from store_rows [OF miss] show "rows = dashboard_rows d env" .
  }
  {
    assume "fst (dashboard_cache_read d env) = None \<and>
            fst (redis_setEx (AppointmentsKey d) 45 (Json rows) env2) = Inl RedisError"
    then have miss: "fst (dashboard_cache_read d env) = None" by simp
    from on_miss [OF miss] show "fst (dashboard d env) = Render None rows False" .
    from store_rows [OF miss] show "rows = dashboard_rows d env" .
  }
qed

theorem dashboard_cache_failure_not_surfaced_witness:
  "fst (redis_get (AppointmentsKey 1) cache_get_fails_env) = Inl RedisError \<and>
   fst (dashboard 1 cache_get_fails_env) = Render None example_rows False \<and>
   fst (dashboard_cache_read 1 cache_set_fails_env) = None \<and>
   fst (redis_setEx (AppointmentsKey 1) 45 (Json example_rows)
          (cache_get_fails_env\<lparr>db_log := [SelectDashboard 1]\<rparr>)) = Inl RedisError \<and>
   fst (dashboard 1 cache_set_fails_env) = Render None example_rows False"
proof -
  have g: "fst (redis_get (AppointmentsKey 1) cache_get_fails_env) = Inl RedisError"
    by (simp add: redis_get_unfold cache_get_fails_env_def example_env_def)
  have s: "fst (redis_setEx (AppointmentsKey 1) 45 (Json example_rows)
                  (cache_get_fails_env\<lparr>db_log := [SelectDashboard 1]\<rparr>)) = Inl RedisError"
    by (simp add: redis_setEx_unfold cache_get_fails_env_def example_env_def)
  have "fst (dashboard 1 cache_get_fails_env) = Render None example_rows False"
    using dashboard_cache_failure_not_surfaced [of 1 cache_get_fails_env] g
      get_fails_cache_read example_store_read
    by simp
  moreover have "fst (dashboard 1 cache_set_fails_env) = Render None example_rows False"
    using dashboard_cache_failure_not_surfaced [of 1 cache_set_fails_env] s
      set_fails_cache_read set_fails_store_read
    by simp
  ultimately show ?thesis
    using g s set_fails_cache_read by simp
qed

subsection \<open>Accepting or rejecting an appointment that does not resolve\<close>

lemma appointment_rows_frame:
  "appointment_rows i (env\<lparr>db_faults := fs, db_log := l\<rparr>) = appointment_rows i env"
  by (simp add: appointment_rows_def)

lemma db_select_appointment_unfold:
  "db_select_appointment i env =
     (if fst (next_fault (db_faults env))
      then (Inl DbError, env\<lparr>db_faults := snd (next_fault (db_faults env))\<rparr>)
      else (Inr (appointment_rows i env),
            env\<lparr>db_faults := snd (next_fault (db_faults env)),
                db_log := db_log env @ [SelectAppointment i]\<rparr>))"
  by (simp add: db_select_appointment_def db_begin_unfold appointment_rows_frame)

lemma db_update_status_unfold:
  "db_update_status s i env =
     (if fst (next_fault (db_faults env))
      then (Inl DbError, env\<lparr>db_faults := snd (next_fault (db_faults env))\<rparr>)
      else (Inr (),
            env\<lparr>db_faults := snd (next_fault (db_faults env)),
                db_log := db_log env @ [UpdateStatus s i],
                appointments := set_status s i (appointments env)\<rparr>))"
  by (simp add: db_update_status_def db_begin_unfold)

lemma set_status_absent:
  "\<forall>a \<in> set as. a_id a \<noteq> i \<Longrightarrow> set_status s i as = as"
  by (induction as) (simp_all add: set_status_def)

lemma accept_unresolved:
  assumes "db_select_appointment appointmentId env = (Inr [], env1)"
  shows "accept_appointment appointmentId env =
           (Send 500 ''Error accepting appointment'',
            snd (db_update_status ''accepted'' appointmentId env1))"
  using assms
  by (cases "db_update_status ''accepted'' appointmentId env1")
    (simp add: accept_appointment_def split: sum.splits)

lemma reject_unresolved:
  assumes "db_select_appointment appointmentId env = (Inr [], env1)"
  shows "reject_appointment appointmentId env =
           (Send 500 ''Error rejecting appointment'',
            snd (db_update_status ''rejected'' appointmentId env1))"
  using assms
  by (cases "db_update_status ''rejected'' appointmentId env1")
    (simp add: reject_appointment_def split: sum.splits)

lemma db_select_appointment_frame:
  assumes "db_select_appointment i env = (Inr rows, env1)"
  shows "rows = appointment_rows i env" and "redis_data env1 = redis_data env"
    and "published env1 = published env" and "emitted env1 = emitted env"
    and "db_log env1 = db_log env @ [SelectAppointment i]"
    and "appointments env1 = appointments env"
  using assms by (auto simp: db_select_appointment_unfold split: if_splits)

lemma db_update_status_frame:
  "redis_data (snd (db_update_status s i env)) = redis_data env"
  "published (snd (db_update_status s i env)) = published env"
  "emitted (snd (db_update_status s i env)) = emitted env"
  by (simp_all add: db_update_status_unfold)

lemma db_update_status_absent:
  "\<forall>a \<in> set (appointments env). a_id a \<noteq> i \<Longrightarrow>
   appointments (snd (db_update_status s i env)) = appointments env"
  by (simp add: db_update_status_unfold set_status_absent)

lemma db_update_status_ok:
  assumes "fst (db_update_status s i env) = Inr ()"
  shows "db_log (snd (db_update_status s i env)) = db_log env @ [UpdateStatus s i]"
    and "appointments (snd (db_update_status s i env)) = set_status s i (appointments env)"
  using assms by (auto simp: db_update_status_unfold split: if_splits)

lemma example_unresolved:
  "db_select_appointment 99 example_env =
     (Inr [], example_env\<lparr>db_log := [SelectAppointment 99]\<rparr>)"
  by (simp add: db_select_appointment_unfold appointment_rows_def example_env_def)

text \<open>
  C1, as the code has it. When the joined query of the accept or the reject handler
  succeeds with no row, the handler answers with status 500 and its error message (the
  \<^verbatim>\<open>TypeError\<close> of line 126 reaches the \<^verbatim>\<open>catch\<close> of line 153); no cache key is
  deleted and no event is published or emitted. The \<^verbatim>\<open>UPDATE\<close> of lines 105-108 has
  been sent before: when it succeeds the store has executed it, setting the status of
  every appointment with that id, which changes no row when no appointment has the id.
\<close>

theorem unresolved_appointment_server_error:
  assumes unresolved: "db_select_appointment appointmentId env = (Inr [], env1)"
  shows "(let (resp, env') = accept_appointment appointmentId env in
            resp = Send 500 ''Error accepting appointment'' \<and>
            redis_data env' = redis_data env \<and>
            published env' = published env \<and> emitted env' = emitted env \<and>
            (fst (db_update_status ''accepted'' appointmentId env1) = Inr () \<longrightarrow>
               db_log env' =
                 db_log env @ [SelectAppointment appointmentId, UpdateStatus ''accepted'' appointmentId] \<and>
               appointments env' = set_status ''accepted'' appointmentId (appointments env)) \<and>
            ((\<forall>a \<in> set (appointments env). a_id a \<noteq> appointmentId) \<longrightarrow>
               appointments env' = appointments env)) \<and>
         (let (resp, env') = reject_appointment appointmentId env in
            resp = Send 500 ''Error rejecting appointment'' \<and>
            redis_data env' = redis_data env \<and>
            published env' = published env \<and> emitted env' = emitted env \<and>
            (fst (db_update_status ''rejected'' appointmentId env1) = Inr () \<longrightarrow>
               db_log env' =
                 db_log env @ [SelectAppointment appointmentId, UpdateStatus ''rejected'' appointmentId] \<and>
               appointments env' = set_status ''rejected'' appointmentId (appointments env)) \<and>
            ((\<forall>a \<in> set (appointments env). a_id a \<noteq> appointmentId) \<longrightarrow>
               appointments env' = appointments env))"
  using db_select_appointment_frame(2-6) [OF unresolved]
  by (simp add: accept_unresolved [OF unresolved] reject_unresolved [OF unresolved]
      db_update_status_frame db_update_status_ok db_update_status_absent)

theorem unresolved_appointment_server_error_witness:
  "db_select_appointment 99 example_env =
     (Inr [], example_env\<lparr>db_log := [SelectAppointment 99]\<rparr>) \<and>
   fst (accept_appointment 99 example_env) = Send 500 ''Error accepting appointment'' \<and>
   fst (reject_appointment 99 example_env) = Send 500 ''Error rejecting appointment'' \<and>
   redis_data (snd (accept_appointment 99 example_env)) = redis_data example_env \<and>
   emitted (snd (reject_appointment 99 example_env)) = emitted example_env \<and>
   db_log (snd (reject_appointment 99 example_env)) =
     [SelectAppointment 99, UpdateStatus ''rejected'' 99]"
proof -
  have ok: "fst (db_update_status s 99 (example_env\<lparr>db_log := [SelectAppointment 99]\<rparr>)) = Inr ()" for s
    by (simp add: db_update_status_unfold example_env_def)
  have "db_log example_env = []"
    by (simp add: example_env_def)
  with unresolved_appointment_server_error [OF example_unresolved] ok example_unresolved
  show ?thesis
    by (simp add: case_prod_unfold Let_def)
qed

text \<open>
  C1, as the claim has it, asks for a Not-Found failure and for no update being
  executed. For an id that no appointment has, the handler answers 500 and the store
  has executed the \<^verbatim>\<open>UPDATE\<close>.
\<close>

theorem unresolved_appointment_update_issued:
  "fst (db_select_appointment 99 example_env) = Inr [] \<and>
   fst (accept_appointment 99 example_env) = Send 500 ''Error accepting appointment'' \<and>
   db_log (snd (accept_appointment 99 example_env)) =
     [SelectAppointment 99, UpdateStatus ''accepted'' 99]"
  by (simp add: example_unresolved accept_unresolved [OF example_unresolved]
      db_update_status_unfold)
    (simp add: example_env_def)

subsection \<open>The accept and the reject handler side by side\<close>

text \<open>
  C9, as the code has it. The accept handler is its own text with the status abstracted,
  at \<^verbatim>\<open>'accepted'\<close>. The reject handler is that text at \<^verbatim>\<open>'rejected'\<close> up to the
  message of the 500 response, which reads \<^verbatim>\<open>Error rejecting appointment\<close> where the
  accept handler has \<^verbatim>\<open>Error accepting appointment\<close>: the same statements are sent,
  the same cache key is deleted, the same event is published or emitted, and the same
  state is left.
\<close>

theorem reject_is_accept_up_to_status_and_wording:
  "accept_appointment appointmentId env = accept_with_status ''accepted'' appointmentId env \<and>
   reject_appointment appointmentId env =
     (case accept_with_status ''rejected'' appointmentId env of
        (resp, env') \<Rightarrow> (reject_wording resp, env'))"
proof
  show "accept_appointment appointmentId env = accept_with_status ''accepted'' appointmentId env"
    by (simp add: accept_appointment_def accept_with_status_def)
next
  show "reject_appointment appointmentId env =
          (case accept_with_status ''rejected'' appointmentId env of
             (resp, env') \<Rightarrow> (reject_wording resp, env'))"
  proof (cases "db_select_appointment appointmentId env")
    case select: (Pair r1 env1)
    show ?thesis
    proof (cases r1)
      case (Inl err)
      with select show ?thesis
        by (simp add: reject_appointment_def accept_with_status_def)
    next
      case rows: (Inr rows)
      show ?thesis
      proof (cases "db_update_status ''rejected'' appointmentId env1")
        case update: (Pair r2 env2)
        show ?thesis
        proof (cases r2)
          case (Inl err)
          with select rows update show ?thesis
            by (simp add: reject_appointment_def accept_with_status_def)
        next
          case (Inr u)
          with select rows update show ?thesis
            by (cases rows)
              (simp_all add: reject_appointment_def accept_with_status_def Let_def
                split: prod.splits sum.splits)
        qed
      qed
    qed
  qed
qed

lemma store_down_select:
  "db_select_appointment 42 store_down_env = (Inl DbError, example_env)"
  by (simp add: db_select_appointment_unfold store_down_env_def) (simp add: example_env_def)

text \<open>
  C9, as the claim has it, makes the reject handler the accept handler with
  \<^verbatim>\<open>'accepted'\<close> replaced by \<^verbatim>\<open>'rejected'\<close>, with the same result. With the store
  down the two answer with different messages.
\<close>

theorem reject_differs_in_error_text:
  "reject_appointment 42 store_down_env =
     (Send 500 ''Error rejecting appointment'', example_env) \<and>
   accept_with_status ''rejected'' 42 store_down_env =
     (Send 500 ''Error accepting appointment'', example_env) \<and>
   reject_appointment 42 store_down_env \<noteq> accept_with_status ''rejected'' 42 store_down_env"
  by (simp add: reject_appointment_def accept_with_status_def store_down_select)

subsection \<open>Notification after a status change of an appointment\<close>

lemma redis_del_unfold:
  "redis_del k env =
     (if fst (next_fault (redis_faults env))
      then (Inl RedisError, env\<lparr>redis_faults := snd (next_fault (redis_faults env))\<rparr>)
      else (Inr (), env\<lparr>redis_faults := snd (next_fault (redis_faults env)),
                         redis_data := (redis_data env)(k := None)\<rparr>))"
  by (simp add: redis_del_def redis_begin_unfold)

lemma publish_unfold:
  "publish topic ev env =
     (if fst (next_fault (pub_faults env))
      then (Inl RedisError, env\<lparr>pub_faults := snd (next_fault (pub_faults env))\<rparr>)
      else (Inr (), env\<lparr>pub_faults := snd (next_fault (pub_faults env)),
                         published := published env @ [(topic, ev)]\<rparr>))"
  by (simp add: publish_def split: prod.splits)

lemma redis_set_unfold:
  "redis_set k v env =
     (if fst (next_fault (redis_faults env))
      then (Inl RedisError, env\<lparr>redis_faults := snd (next_fault (redis_faults env))\<rparr>)
      else (Inr (), env\<lparr>redis_faults := snd (next_fault (redis_faults env)),
                         redis_data := (redis_data env)(k \<mapsto> (v, None))\<rparr>))"
  by (simp add: redis_set_def redis_begin_unfold)

text \<open>
  When the appointment resolves, the update succeeds and the Socket.IO server is there,
  the accept and the reject handler deliver the event on exactly one channel: on the
  broadcast channel when the publisher is open and \<^verbatim>\<open>publish\<close> resolves, directly
  otherwise.
\<close>

lemma accept_notifies_on_one_channel:
  assumes select: "db_select_appointment appointmentId env = (Inr (a # rows), env1)"
    and update: "fst (db_update_status ''accepted'' appointmentId env1) = Inr ()"
    and io: "io_present env"
  shows "let env' = snd (accept_appointment appointmentId env);
             ev = AppointmentEvent
                    \<lparr>ev_appointmentId = appointmentId, ev_patientId = patient_id a,
                     ev_status = ''accepted'', ev_doctorName = doctor_name a,
                     ev_specialization = specialization a,
                     ev_appointmentDate = appointment_date a,
                     ev_startTime = start_time a, ev_endTime = end_time a\<rparr>
         in fst (accept_appointment appointmentId env) = Redirect ''/doctors/dashboard'' \<and>
            (if pub_isOpen env \<and> \<not> fst (next_fault (pub_faults env))
             then published env' = published env @ [(''appointment:updated'', ev)] \<and>
                  emitted env' = emitted env
             else published env' = published env \<and>
                  emitted env' = emitted env @ [(''appointmentStatusUpdated'', ev)])"
  using assms
  by (auto simp: accept_appointment_def db_select_appointment_unfold db_update_status_unfold
      redis_del_unfold publish_unfold io_emit_def Let_def split: if_splits)

lemma reject_notifies_on_one_channel:
  assumes select: "db_select_appointment appointmentId env = (Inr (a # rows), env1)"
    and update: "fst (db_update_status ''rejected'' appointmentId env1) = Inr ()"
    and io: "io_present env"
  shows "let env' = snd (reject_appointment appointmentId env);
             ev = AppointmentEvent
                    \<lparr>ev_appointmentId = appointmentId, ev_patientId = patient_id a,
                     ev_status = ''rejected'', ev_doctorName = doctor_name a,
                     ev_specialization = specialization a,
                     ev_appointmentDate = appointment_date a,
                     ev_startTime = start_time a, ev_endTime = end_time a\<rparr>
         in fst (reject_appointment appointmentId env) = Redirect ''/doctors/dashboard'' \<and>
            (if pub_isOpen env \<and> \<not> fst (next_fault (pub_faults env))
             then published env' = published env @ [(''appointment:updated'', ev)] \<and>
                  emitted env' = emitted env
             else published env' = published env \<and>
                  emitted env' = emitted env @ [(''appointmentStatusUpdated'', ev)])"
  using assms
  by (auto simp: reject_appointment_def db_select_appointment_unfold db_update_status_unfold
      redis_del_unfold publish_unfold io_emit_def Let_def split: if_splits)

lemma publish_fails_select:
  "db_select_appointment 42 publish_fails_env =
     (Inr [\<lparr>a_id = 42, doctor_id = 1, patient_id = 7, status = ''pending'',
            appointment_date = 19737, start_time = 36000, end_time = 37800,
            patient_name = ''Ada'', doctor_name = ''Dr One'', specialization = ''Cardiology''\<rparr>],
      publish_fails_env\<lparr>db_log := [SelectAppointment 42]\<rparr>)"
  by (simp add: db_select_appointment_unfold appointment_rows_def full_join_def
      publish_fails_env_def example_env_def)

lemma accept_falls_back_example:
  "fst (accept_appointment 42 publish_fails_env) = Redirect ''/doctors/dashboard'' \<and>
   published (snd (accept_appointment 42 publish_fails_env)) = [] \<and>
   emitted (snd (accept_appointment 42 publish_fails_env)) =
     [(''appointmentStatusUpdated'',
       AppointmentEvent
         \<lparr>ev_appointmentId = 42, ev_patientId = 7, ev_status = ''accepted'',
          ev_doctorName = ''Dr One'', ev_specialization = ''Cardiology'',
          ev_appointmentDate = 19737, ev_startTime = 36000, ev_endTime = 37800\<rparr>)]"
proof -
  have "fst (db_update_status ''accepted'' 42 (publish_fails_env\<lparr>db_log := [SelectAppointment 42]\<rparr>)) = Inr ()"
    by (simp add: db_update_status_unfold publish_fails_env_def example_env_def)
  moreover have "io_present publish_fails_env" and "pub_isOpen publish_fails_env"
    and "fst (next_fault (pub_faults publish_fails_env))"
    and "published publish_fails_env = []" and "emitted publish_fails_env = []"
    by (simp_all add: publish_fails_env_def example_env_def)
  ultimately show ?thesis
    using accept_notifies_on_one_channel [OF publish_fails_select]
    by (simp add: Let_def)
qed

subsection \<open>Presence\<close>

lemma status_update_success:
  assumes "status_update doctorId doctorName (JString s) env = (JsonSuccess s', env')"
  shows "s' = s" and "s \<in> set validStatuses" and "clock env' = clock env"
    and "redis_data env' =
           (redis_data env)(StatusKey doctorId \<mapsto>
              (Str s, if s = ''offline'' then None else Some (clock env + 1800)))"
  using assms
  by (auto simp: status_update_def redis_set_unfold redis_setEx_unfold publish_unfold Let_def
      split: if_splits)

lemma redis_lookup_wait:
  "redis_lookup (wait t env) k = live_value (clock env + t) (redis_data env k)"
  by (simp add: redis_lookup_def wait_def)

lemma wait_frame:
  "redis_isOpen (wait t env) = redis_isOpen env" "redis_faults (wait t env) = redis_faults env"
  by (simp_all add: wait_def)

lemma get_status_absent:
  "redis_lookup env (StatusKey doctorId) = None \<Longrightarrow>
   fst (get_status doctorId env) = JsonStatus (Str ''offline'')"
  by (simp add: get_status_def redis_get_unfold or_offline_def)

lemma get_status_offline:
  "redis_lookup env (StatusKey doctorId) = Some (Str ''offline'') \<Longrightarrow>
   fst (get_status doctorId env) = JsonStatus (Str ''offline'')"
  by (simp add: get_status_def redis_get_unfold or_offline_def)

lemma get_status_present:
  "redis_lookup env (StatusKey doctorId) = Some v \<Longrightarrow> truthy v \<Longrightarrow>
   redis_isOpen env \<Longrightarrow> \<not> fst (next_fault (redis_faults env)) \<Longrightarrow>
   fst (get_status doctorId env) = JsonStatus v"
  by (simp add: get_status_def redis_get_unfold or_offline_def)

lemma example_set_busy:
  "status_update 1 ''Dr One'' (JString ''busy'') example_env =
     (JsonSuccess ''busy'',
      example_env\<lparr>redis_data := [StatusKey 1 \<mapsto> (Str ''busy'', Some 2800)],
                  published := [(''doctor:status:changed'',
                     StatusEvent \<lparr>se_doctorId = 1, se_doctorName = ''Dr One'',
                                  se_status = ''busy'', se_timestamp = 1000\<rparr>)]\<rparr>)"
  by (simp add: status_update_def validStatuses_def redis_setEx_unfold publish_unfold
      example_env_def)

lemma example_set_offline:
  "status_update 1 ''Dr One'' (JString ''offline'') example_env =
     (JsonSuccess ''offline'',
      example_env\<lparr>redis_data := [StatusKey 1 \<mapsto> (Str ''offline'', None)],
                  published := [(''doctor:status:changed'',
                     StatusEvent \<lparr>se_doctorId = 1, se_doctorName = ''Dr One'',
                                  se_status = ''offline'', se_timestamp = 1000\<rparr>)]\<rparr>)"
  by (simp add: status_update_def validStatuses_def redis_set_unfold publish_unfold
      example_env_def)

text \<open>
  C6. After a call of \<^verbatim>\<open>POST /status/update\<close> that answers with success, the
  presence key of the doctor holds the status. For \<^verbatim>\<open>offline\<close> the entry has no
  expiry: however long one waits, the key still holds \<^verbatim>\<open>offline\<close> and
  \<^verbatim>\<open>GET /status\<close> answers \<^verbatim>\<open>offline\<close>. For \<^verbatim>\<open>available\<close> and \<^verbatim>\<open>busy\<close> the
  entry expires 1800 seconds after the call: before that the key holds the status (and
  \<^verbatim>\<open>GET /status\<close> answers it when the client is open and the \<^verbatim>\<open>get\<close> resolves),
  from then on the key is absent and \<^verbatim>\<open>GET /status\<close> answers \<^verbatim>\<open>offline\<close>.
\<close>

theorem status_update_ttl:
  assumes success: "status_update doctorId doctorName (JString s) env = (JsonSuccess s', env')"
  shows "s' = s \<and>
     (s = ''offline'' \<longrightarrow>
        redis_data env' (StatusKey doctorId) = Some (Str ''offline'', None) \<and>
        (\<forall>t. redis_lookup (wait t env') (StatusKey doctorId) = Some (Str ''offline'') \<and>
             fst (get_status doctorId (wait t env')) = JsonStatus (Str ''offline''))) \<and>
     (s \<noteq> ''offline'' \<longrightarrow>
        redis_data env' (StatusKey doctorId) = Some (Str s, Some (clock env + 1800)) \<and>
        (\<forall>t<1800. redis_lookup (wait t env') (StatusKey doctorId) = Some (Str s) \<and>
                  (redis_isOpen env' \<and> \<not> fst (next_fault (redis_faults env')) \<longrightarrow>
                     fst (get_status doctorId (wait t env')) = JsonStatus (Str s))) \<and>
        (\<forall>t\<ge>1800. redis_lookup (wait t env') (StatusKey doctorId) = None \<and>
                  fst (get_status doctorId (wait t env')) = JsonStatus (Str ''offline'')))"
proof -
  note f = status_update_success [OF success]
  have nonempty: "s \<noteq> []"
    using f(2) by (auto simp: validStatuses_def)
  have off: "redis_lookup (wait t env') (StatusKey doctorId) = Some (Str ''offline'')"
    if "s = ''offline''" for t
    using that f(4) by (simp add: redis_lookup_wait)
  have live: "redis_lookup (wait t env') (StatusKey doctorId) = Some (Str s)"
    if "s \<noteq> ''offline''" and "t < 1800" for t
    using that f(3,4) by (simp add: redis_lookup_wait)
  have gone: "redis_lookup (wait t env') (StatusKey doctorId) = None"
    if "s \<noteq> ''offline''" and "1800 \<le> t" for t
    using that f(3,4) by (simp add: redis_lookup_wait)
  show ?thesis
    using f(1,4) off live gone nonempty
    by (auto simp: get_status_absent get_status_offline get_status_present wait_frame)
qed

theorem status_update_ttl_witness:
  "fst (status_update 1 ''Dr One'' (JString ''busy'') example_env) = JsonSuccess ''busy'' \<and>
   redis_data (snd (status_update 1 ''Dr One'' (JString ''busy'') example_env)) (StatusKey 1) =
     Some (Str ''busy'', Some 2800) \<and>
   fst (get_status 1 (wait 1799 (snd (status_update 1 ''Dr One'' (JString ''busy'') example_env)))) =
     JsonStatus (Str ''busy'') \<and>
   fst (get_status 1 (wait 1800 (snd (status_update 1 ''Dr One'' (JString ''busy'') example_env)))) =
     JsonStatus (Str ''offline'') \<and>
   fst (status_update 1 ''Dr One'' (JString ''offline'') example_env) = JsonSuccess ''offline'' \<and>
   redis_data (snd (status_update 1 ''Dr One'' (JString ''offline'') example_env)) (StatusKey 1) =
     Some (Str ''offline'', None) \<and>
   redis_lookup (wait 1000000 (snd (status_update 1 ''Dr One'' (JString ''offline'') example_env)))
     (StatusKey 1) = Some (Str ''offline'')"
proof -
  have c: "clock example_env = 1000" and o: "redis_isOpen example_env"
    and r: "redis_faults example_env = []"
    by (simp_all add: example_env_def)
  from status_update_ttl [OF example_set_busy] c o r
  have "redis_data (snd (status_update 1 ''Dr One'' (JString ''busy'') example_env)) (StatusKey 1) =
          Some (Str ''busy'', Some 2800)"
    and "fst (get_status 1 (wait 1799 (snd (status_update 1 ''Dr One'' (JString ''busy'') example_env)))) =
          JsonStatus (Str ''busy'')"
    and "fst (get_status 1 (wait 1800 (snd (status_update 1 ''Dr One'' (JString ''busy'') example_env)))) =
          JsonStatus (Str ''offline'')"
    by (simp_all add: example_set_busy)
  moreover from status_update_ttl [OF example_set_offline]
  have "redis_data (snd (status_update 1 ''Dr One'' (JString ''offline'') example_env)) (StatusKey 1) =
          Some (Str ''offline'', None)"
    and "redis_lookup (wait 1000000 (snd (status_update 1 ''Dr One'' (JString ''offline'') example_env)))
          (StatusKey 1) = Some (Str ''offline'')"
    by (simp_all add: example_set_offline)
  ultimately show ?thesis
    by (simp add: example_set_busy example_set_offline)
qed

lemma publish_fails_set_busy:
  "status_update 1 ''Dr One'' (JString ''busy'') publish_fails_env =
     (JsonError 500 ''Failed to update status'',
      example_env\<lparr>redis_data := [StatusKey 1 \<mapsto> (Str ''busy'', Some 2800)]\<rparr>)"
  by (simp add: status_update_def validStatuses_def redis_setEx_unfold publish_unfold
      publish_fails_env_def example_env_def)

lemma publisher_closed_set_busy:
  "status_update 1 ''Dr One'' (JString ''busy'') publisher_closed_env =
     (JsonSuccess ''busy'',
      publisher_closed_env\<lparr>redis_data := [StatusKey 1 \<mapsto> (Str ''busy'', Some 2800)]\<rparr>)"
  by (simp add: status_update_def validStatuses_def redis_setEx_unfold publish_unfold
      publisher_closed_env_def example_env_def)

text \<open>
  C7 at a state where \<^verbatim>\<open>publish\<close> rejects. The status has been stored, and the
  rejection reaches the \<^verbatim>\<open>catch\<close> of line 273: the caller gets status 500 and
  \<^verbatim>\<open>Failed to update status\<close>. The accept and the reject handler wrap the same call
  in a \<^verbatim>\<open>try\<close> (lines 136-144).
\<close>

theorem status_update_publish_failure_surfaced:
  "fst (status_update 1 ''Dr One'' (JString ''busy'') publish_fails_env) =
     JsonError 500 ''Failed to update status'' \<and>
   redis_data (snd (status_update 1 ''Dr One'' (JString ''busy'') publish_fails_env)) (StatusKey 1) =
     Some (Str ''busy'', Some 2800)"
  by (simp add: publish_fails_set_busy)

text \<open>
  C3 at the same state, and at a state where the publisher is closed. In both the
  Socket.IO server is there, and the presence event is delivered on neither channel:
  \<^verbatim>\<open>POST /status/update\<close> has no direct delivery (lines 264-267), where the accept and
  the reject handler fall back to \<^verbatim>\<open>io.emit\<close> (lines 141-149).
\<close>

theorem status_update_no_direct_delivery:
  "io_present publish_fails_env \<and> pub_isOpen publish_fails_env \<and>
   published (snd (status_update 1 ''Dr One'' (JString ''busy'') publish_fails_env)) = [] \<and>
   emitted (snd (status_update 1 ''Dr One'' (JString ''busy'') publish_fails_env)) = [] \<and>
   io_present publisher_closed_env \<and> \<not> pub_isOpen publisher_closed_env \<and>
   fst (status_update 1 ''Dr One'' (JString ''busy'') publisher_closed_env) = JsonSuccess ''busy'' \<and>
   published (snd (status_update 1 ''Dr One'' (JString ''busy'') publisher_closed_env)) = [] \<and>
   emitted (snd (status_update 1 ''Dr One'' (JString ''busy'') publisher_closed_env)) = []"
  by (simp add: publish_fails_set_busy publisher_closed_set_busy)
    (simp add: publish_fails_env_def publisher_closed_env_def example_env_def)

subsection \<open>The presence of all doctors\<close>

lemma next_fault_take:
  "True \<notin> set (take (Suc n) fs) \<Longrightarrow>
   \<not> fst (next_fault fs) \<and> True \<notin> set (take n (snd (next_fault fs)))"
  by (cases fs) auto

lemma collect_statuses_ok:
  "True \<notin> set (take (length ids) (redis_faults env)) \<Longrightarrow>
   \<exists>env'. collect_statuses ids statuses env =
     (Inr (\<lambda>i. if i \<in> set ids then Some (or_offline (redis_lookup env (StatusKey i)))
                 else statuses i), env')"
proof (induction ids arbitrary: statuses env)
  case Nil
  then show ?case by simp
next
  case (Cons i ids)
  let ?env1 = "env\<lparr>redis_faults := snd (next_fault (redis_faults env))\<rparr>"
  from Cons.prems have ok: "\<not> fst (next_fault (redis_faults env))"
    and rest: "True \<notin> set (take (length ids) (redis_faults ?env1))"
    using next_fault_take [of "length ids" "redis_faults env"] by simp_all
  from Cons.IH [OF rest, of "statuses(i \<mapsto> or_offline (redis_lookup env (StatusKey i)))"]
  obtain env' where
    "collect_statuses ids (statuses(i \<mapsto> or_offline (redis_lookup env (StatusKey i)))) ?env1 =
       (Inr (\<lambda>j. if j \<in> set ids then Some (or_offline (redis_lookup ?env1 (StatusKey j)))
                   else (statuses(i \<mapsto> or_offline (redis_lookup env (StatusKey i)))) j), env')"
    by blast
  with ok show ?case
    by (auto simp: redis_get_unfold redis_lookup_frame fun_eq_iff)
qed

lemma fold_offline:
  "fold (\<lambda>i statuses. statuses(i \<mapsto> v)) ids statuses0 =
     (\<lambda>i. if i \<in> set ids then Some v else statuses0 i)"
  by (induction ids arbitrary: statuses0) (auto simp: fun_eq_iff)

lemma db_select_doctor_ids_unfold:
  "db_select_doctor_ids env =
     (if fst (next_fault (db_faults env))
      then (Inl DbError, env\<lparr>db_faults := snd (next_fault (db_faults env))\<rparr>)
      else (Inr (map d_id (doctors env)),
            env\<lparr>db_faults := snd (next_fault (db_faults env)),
                db_log := db_log env @ [SelectDoctorIds]\<rparr>))"
  by (simp add: db_select_doctor_ids_def db_begin_unfold)

lemma db_select_doctor_ids_ok:
  assumes "db_select_doctor_ids env = (Inr ids, env1)"
  shows "ids = map d_id (doctors env)" and "redis_isOpen env1 = redis_isOpen env"
    and "redis_faults env1 = redis_faults env" and "redis_data env1 = redis_data env"
    and "clock env1 = clock env"
  using assms by (auto simp: db_select_doctor_ids_unfold split: if_splits)

lemma presence_doctor_ids:
  "db_select_doctor_ids presence_env = (Inr [1, 2], presence_env\<lparr>db_log := [SelectDoctorIds]\<rparr>)"
  by (simp add: db_select_doctor_ids_unfold presence_env_def example_env_def)

text \<open>
  When the store query of \<^verbatim>\<open>GET /status/all\<close> succeeds and the cache client is
  closed or none of the \<^verbatim>\<open>get\<close> calls of the loop rejects, the handler answers with
  a map whose keys are exactly the doctor ids of the store. With the client closed every
  value is \<^verbatim>\<open>offline\<close>; with the client open the value of a doctor is what the
  presence key holds, and \<^verbatim>\<open>offline\<close> when the key is absent or expired (or holds
  the empty text, which \<^verbatim>\<open>||\<close> takes for absent).
\<close>

lemma status_all_one_entry_per_doctor:
  assumes store: "db_select_doctor_ids env = (Inr ids, env1)"
    and cache: "\<not> redis_isOpen env \<or> True \<notin> set (take (length ids) (redis_faults env))"
  shows "\<exists>statuses.
           fst (status_all env) = JsonStatuses statuses \<and>
           dom statuses = set ids \<and> set ids = d_id ` set (doctors env) \<and>
           (\<forall>i \<in> set ids. \<exists>v.
              statuses i = Some v \<and>
              (\<not> redis_isOpen env \<longrightarrow> v = Str ''offline'') \<and>
              (redis_isOpen env \<longrightarrow>
                 (case redis_lookup env (StatusKey i) of
                    None \<Rightarrow> v = Str ''offline''
                  | Some x \<Rightarrow> v = (if truthy x then x else Str ''offline''))))"
proof -
  note f = db_select_doctor_ids_ok [OF store]
  have ids: "set ids = d_id ` set (doctors env)"
    using f(1) by simp
  have lookup: "redis_lookup env1 k = redis_lookup env k" for k
    using f(4,5) by (simp add: redis_lookup_def)
  show ?thesis
  proof (cases "redis_isOpen env")
    case False
    then have "fst (status_all env) =
                 JsonStatuses (\<lambda>i. if i \<in> set ids then Some (Str ''offline'') else None)"
      using store f(2) by (simp add: status_all_def fold_offline)
    with False ids show ?thesis
      by (auto simp: dom_def)
  next
    case True
    with cache f(3) have "True \<notin> set (take (length ids) (redis_faults env1))"
      by simp
    from collect_statuses_ok [OF this, of Map.empty] obtain env2 where
      "collect_statuses ids Map.empty env1 =
         (Inr (\<lambda>i. if i \<in> set ids then Some (or_offline (redis_lookup env1 (StatusKey i)))
                     else None), env2)"
      by blast
    then have "fst (status_all env) =
                 JsonStatuses (\<lambda>i. if i \<in> set ids
                                     then Some (or_offline (redis_lookup env (StatusKey i)))
                                     else None)"
      using store f(2) True by (simp add: status_all_def lookup cong: if_cong)
    with True ids show ?thesis
      by (auto simp: dom_def or_offline_def split: option.splits)
  qed
qed

lemma status_all_one_entry_per_doctor_example:
  "db_select_doctor_ids presence_env = (Inr [1, 2], presence_env\<lparr>db_log := [SelectDoctorIds]\<rparr>) \<and>
   True \<notin> set (take (length [1, 2 :: int]) (redis_faults presence_env)) \<and>
   (\<exists>statuses.
      fst (status_all presence_env) = JsonStatuses statuses \<and> dom statuses = {1, 2} \<and>
      statuses 1 = Some (Str ''busy'') \<and> statuses 2 = Some (Str ''offline''))"
proof -
  have faults: "True \<notin> set (take (length [1, 2 :: int]) (redis_faults presence_env))"
    by (simp add: presence_env_def example_env_def)
  have is_open: "redis_isOpen presence_env"
    by (simp add: presence_env_def example_env_def)
  have l1: "redis_lookup presence_env (StatusKey 1) = Some (Str ''busy'')"
    and l2: "redis_lookup presence_env (StatusKey 2) = None"
    by (simp_all add: redis_lookup_def presence_env_def example_env_def)
  from status_all_one_entry_per_doctor [OF presence_doctor_ids] faults
  obtain statuses where "fst (status_all presence_env) = JsonStatuses statuses"
    and "dom statuses = set [1, 2]"
    and "\<forall>i \<in> set [1, 2]. \<exists>v.
              statuses i = Some v \<and>
              (\<not> redis_isOpen presence_env \<longrightarrow> v = Str ''offline'') \<and>
              (redis_isOpen presence_env \<longrightarrow>
                 (case redis_lookup presence_env (StatusKey i) of
                    None \<Rightarrow> v = Str ''offline''
                  | Some x \<Rightarrow> v = (if truthy x then x else Str ''offline'')))"
    by blast
  with is_open l1 l2 have "fst (status_all presence_env) = JsonStatuses statuses \<and>
      dom statuses = {1, 2} \<and> statuses 1 = Some (Str ''busy'') \<and> statuses 2 = Some (Str ''offline'')"
    by auto
  with presence_doctor_ids faults show ?thesis
    by blast
qed

text \<open>
  C10 at a state where the store query succeeds and a \<^verbatim>\<open>get\<close> of the loop rejects on
  the open client. The loop of lines 308-312 has no \<^verbatim>\<open>try\<close> of its own, so the
  rejection reaches the \<^verbatim>\<open>catch\<close> of line 319: the handler answers status 500 and
  \<^verbatim>\<open>Failed to get statuses\<close>, with no map and no doctor reported \<^verbatim>\<open>offline\<close>.
  \<^verbatim>\<open>GET /status\<close> answers \<^verbatim>\<open>offline\<close> when its \<^verbatim>\<open>get\<close> rejects (lines 292-294),
  and line 314 has every doctor \<^verbatim>\<open>offline\<close> when the client is closed.
\<close>

theorem status_all_rejected_get_answers_500:
  "fst (db_select_doctor_ids presence_get_fails_env) = Inr [1, 2] \<and>
   redis_isOpen presence_get_fails_env \<and>
   fst (status_all presence_get_fails_env) = JsonError 500 ''Failed to get statuses'' \<and>
   fst (get_status 1 cache_get_fails_env) = JsonStatus (Str ''offline'')"
  by (simp add: status_all_def get_status_def db_select_doctor_ids_unfold redis_get_unfold
      redis_lookup_def presence_get_fails_env_def presence_env_def cache_get_fails_env_def
      example_env_def)

end
